theory Spec2Isabelle
  imports Complex_Main "HOL-Library.Word"
begin

unbundle bit_operations_syntax

section \<open>Heater object (src/core/heater/heater.h)\<close>

subsection \<open>The flag byte \<^verbatim>\<open>flagheater_t\<close>\<close>

text \<open>
  \<^verbatim>\<open>union flagheater_t { uint8_t all; struct { bool Active : 1; ... bool Pidtuning : 1; }; }\<close>
  The eight one-bit members share the byte \<^verbatim>\<open>all\<close>. The source numbers them in its
  comments ("Flag bit 0 Set Active" ... "Flag bit 7 Set Pid Tuning"), which is also the
  order of declaration; the byte is modelled as an \<open>8 word\<close> and each member as one
  bit of it.
\<close>

datatype flagname =
  Active | UsePid | Pidtuned | HWInvert | Thermalprotection | Idle | Fault | Pidtuning

fun flag_pos :: "flagname \<Rightarrow> nat" where
  "flag_pos Active = 0"
| "flag_pos UsePid = 1"
| "flag_pos Pidtuned = 2"
| "flag_pos HWInvert = 3"
| "flag_pos Thermalprotection = 4"
| "flag_pos Idle = 5"
| "flag_pos Fault = 6"
| "flag_pos Pidtuning = 7"

text \<open>Reading a member of the bit-field, and assigning a \<^verbatim>\<open>bool\<close> to it.\<close>

definition get_flag :: "flagname \<Rightarrow> 8 word \<Rightarrow> bool" where
  "get_flag f w = bit w (flag_pos f)"

definition put_flag :: "flagname \<Rightarrow> bool \<Rightarrow> 8 word \<Rightarrow> 8 word" where
  "put_flag f b w = (if b then set_bit (flag_pos f) w else unset_bit (flag_pos f) w)"

subsection \<open>Data\<close>

datatype HeatertypeEnum = IS_HOTEND | IS_BED | IS_CHAMBER | IS_COOLER

datatype TRState = TRInactive | TRFirstHeating | TRStable | TRRunaway

text \<open>\<^verbatim>\<open>heater_data_t\<close>; \<^verbatim>\<open>int16_t\<close> fields are 16-bit words, read as signed by \<open>sint\<close>.\<close>

record heater_data_t =
  type :: HeatertypeEnum
  pin :: "8 word"
  flag :: "8 word"
  ID :: "8 word"
  mintemp :: "16 word"
  maxtemp :: "16 word"

text \<open>
  \<^verbatim>\<open>sensor_data_t\<close> is declared in sensor/sensor.h. The heater reads only its member
  \<^verbatim>\<open>type\<close>, and only compares it with 0; the other members are the extension part of
  the record.
\<close>

record sensor_data_t =
  type :: "16 word"

text \<open>
  \<^verbatim>\<open>class Heater\<close>. The type \<^verbatim>\<open>pid_data_t\<close> (pid/pid.h) is a type parameter; the
  \<^verbatim>\<open>float\<close> \<^verbatim>\<open>current_temperature\<close> is never computed with by the functions of
  heater.h embedded here and is carried as a real number.
\<close>

record ('pid, 'sens) Heater =
  data :: heater_data_t
  pid :: 'pid
  sensor :: "'sens sensor_data_t_scheme"
  watch_target_temp :: "16 word"
  pwm_value :: "8 word"
  consecutive_low_temp :: "8 word"
  target_temperature :: "16 word"
  idle_temperature :: "16 word"
  current_temperature :: real
  thermal_runaway_state :: TRState
  watch_next_ms :: "16 word"
  idle_timeout_time :: "16 word"

text \<open>
  The heaters are objects of static storage duration (\<^verbatim>\<open>extern Heater hotends[HOTENDS]\<close>
  ...), so every member starts as zero; the constructor of \<^verbatim>\<open>flagheater_t\<close> sets
  \<^verbatim>\<open>all = 0x00\<close>. Enumerator 0 is \<^verbatim>\<open>IS_HOTEND\<close>, respectively \<^verbatim>\<open>TRInactive\<close>.
\<close>

definition Heater_zero :: "(unit, unit) Heater" where
  "Heater_zero =
     \<lparr> data = \<lparr> heater_data_t.type = IS_HOTEND, pin = 0, flag = 0, ID = 0,
                mintemp = 0, maxtemp = 0 \<rparr>,
       pid = (),
       sensor = \<lparr> sensor_data_t.type = 0 \<rparr>,
       watch_target_temp = 0,
       pwm_value = 0,
       consecutive_low_temp = 0,
       target_temperature = 0,
       idle_temperature = 0,
       current_temperature = 0,
       thermal_runaway_state = TRInactive,
       watch_next_ms = 0,
       idle_timeout_time = 0 \<rparr>"

subsection \<open>The inline member functions\<close>

text \<open>Assignment \<^verbatim>\<open>data.flag.<member> = b\<close>.\<close>

definition assign_flag ::
  "flagname \<Rightarrow> bool \<Rightarrow> ('pid, 'sens) Heater \<Rightarrow> ('pid, 'sens) Heater" where
  "assign_flag f b h = h\<lparr>data := (data h)\<lparr>flag := put_flag f b (flag (data h))\<rparr>\<rparr>"

definition isActive :: "('pid, 'sens) Heater \<Rightarrow> bool" where
  "isActive h = get_flag Active (flag (data h))"

definition isUsePid :: "('pid, 'sens) Heater \<Rightarrow> bool" where
  "isUsePid h = get_flag UsePid (flag (data h))"

definition isPidTuned :: "('pid, 'sens) Heater \<Rightarrow> bool" where
  "isPidTuned h = get_flag Pidtuned (flag (data h))"

definition isHWinvert :: "('pid, 'sens) Heater \<Rightarrow> bool" where
  "isHWinvert h = get_flag HWInvert (flag (data h))"

definition isThermalProtection :: "('pid, 'sens) Heater \<Rightarrow> bool" where
  "isThermalProtection h = get_flag Thermalprotection (flag (data h))"

definition isIdle :: "('pid, 'sens) Heater \<Rightarrow> bool" where
  "isIdle h = get_flag Idle (flag (data h))"

definition isFault :: "('pid, 'sens) Heater \<Rightarrow> bool" where
  "isFault h = get_flag Fault (flag (data h))"

definition isPidTuning :: "('pid, 'sens) Heater \<Rightarrow> bool" where
  "isPidTuning h = get_flag Pidtuning (flag (data h))"

text \<open>
  \<^verbatim>\<open>if (!isFault() && sensor.type != 0 && onoff) data.flag.Active = true;
  else data.flag.Active = false;\<close>
\<close>

definition setActive :: "bool \<Rightarrow> ('pid, 'sens) Heater \<Rightarrow> ('pid, 'sens) Heater" where
  "setActive onoff h =
     (if \<not> isFault h \<and> sensor_data_t.type (sensor h) \<noteq> 0 \<and> onoff
      then assign_flag Active True h
      else assign_flag Active False h)"

definition setUsePid :: "bool \<Rightarrow> ('pid, 'sens) Heater \<Rightarrow> ('pid, 'sens) Heater" where
  "setUsePid onoff h = assign_flag UsePid onoff h"

definition setPidTuned :: "bool \<Rightarrow> ('pid, 'sens) Heater \<Rightarrow> ('pid, 'sens) Heater" where
  "setPidTuned onoff h = assign_flag Pidtuned onoff h"

definition setHWinvert :: "bool \<Rightarrow> ('pid, 'sens) Heater \<Rightarrow> ('pid, 'sens) Heater" where
  "setHWinvert onoff h = assign_flag HWInvert onoff h"

definition setThermalProtection ::
  "bool \<Rightarrow> ('pid, 'sens) Heater \<Rightarrow> ('pid, 'sens) Heater" where
  "setThermalProtection onoff h = assign_flag Thermalprotection onoff h"

text \<open>
  \<^verbatim>\<open>data.flag.Idle = onoff; idle_temperature = idle_temp;
  if (onoff) thermal_runaway_state = TRInactive;\<close>
\<close>

definition setIdle ::
  "bool \<Rightarrow> 16 word \<Rightarrow> ('pid, 'sens) Heater \<Rightarrow> ('pid, 'sens) Heater" where
  "setIdle onoff idle_temp h =
     (let h1 = assign_flag Idle onoff h;
          h2 = h1\<lparr>idle_temperature := idle_temp\<rparr>
      in if onoff then h2\<lparr>thermal_runaway_state := TRInactive\<rparr> else h2)"

text \<open>The call \<^verbatim>\<open>setIdle(onoff)\<close>, with the default argument \<^verbatim>\<open>idle_temp = 0\<close>.\<close>

definition setIdle_default :: "bool \<Rightarrow> ('pid, 'sens) Heater \<Rightarrow> ('pid, 'sens) Heater" where
  "setIdle_default onoff h = setIdle onoff 0 h"

text \<open>\<^verbatim>\<open>pwm_value = 0; setActive(false); data.flag.Fault = true;\<close>\<close>

definition setFault :: "('pid, 'sens) Heater \<Rightarrow> ('pid, 'sens) Heater" where
  "setFault h = assign_flag Fault True (setActive False (h\<lparr>pwm_value := 0\<rparr>))"

text \<open>\<^verbatim>\<open>target_temperature = 0; pwm_value = 0; setActive(false);\<close>\<close>

definition SwitchOff :: "('pid, 'sens) Heater \<Rightarrow> ('pid, 'sens) Heater" where
  "SwitchOff h = setActive False (h\<lparr>target_temperature := 0, pwm_value := 0\<rparr>)"

text \<open>\<^verbatim>\<open>data.flag.Fault = false; SwitchOff();\<close>\<close>

definition ResetFault :: "('pid, 'sens) Heater \<Rightarrow> ('pid, 'sens) Heater" where
  "ResetFault h = SwitchOff (assign_flag Fault False h)"

definition setPidTuning :: "bool \<Rightarrow> ('pid, 'sens) Heater \<Rightarrow> ('pid, 'sens) Heater" where
  "setPidTuning onoff h = assign_flag Pidtuning onoff h"

text \<open>\<^verbatim>\<open>data.flag.all = false;\<close> The \<^verbatim>\<open>bool\<close> converts to the byte 0.\<close>

definition resetFlag :: "('pid, 'sens) Heater \<Rightarrow> ('pid, 'sens) Heater" where
  "resetFlag h = h\<lparr>data := (data h)\<lparr>flag := 0\<rparr>\<rparr>"

subsection \<open>Member functions declared in heater.h and defined elsewhere\<close>

text \<open>
  \<^verbatim>\<open>setTarget\<close>, \<^verbatim>\<open>get_output\<close>, \<^verbatim>\<open>thermal_runaway_protection\<close> and
  \<^verbatim>\<open>start_watching\<close> are only declared in heater.h. What they compute from the
  sensor reading, the clock and the PID controller (floating point, time) is passed in
  as an observation made at the time of the call.
\<close>

record observation =
  temp_out_of_range :: bool         \<comment> \<open>current temperature outside [mintemp, maxtemp]\<close>
  heating_up :: bool                \<comment> \<open>target above the current temperature\<close>
  watch_target_reached :: bool      \<comment> \<open>current temperature has reached the watch target\<close>
  watch_deadline_elapsed :: bool    \<comment> \<open>the watch deadline has passed\<close>
  out_of_band_sustained :: bool     \<comment> \<open>out of the hysteresis band for the whole interval\<close>
  new_watch_target :: "16 word"     \<comment> \<open>current temperature + watch_increase[kind]\<close>
  new_watch_deadline :: "16 word"   \<comment> \<open>now + check_interval[kind]\<close>
  regulated_output :: "8 word"      \<comment> \<open>the PID or bang-bang duty, after clamping and inversion\<close>

text \<open>
  Modelled from the spec: \<^verbatim>\<open>start_watching\<close> is not defined in heater.h. Spec 4.4:
  "start_watching() sets watch_target = current_temperature + watch_increase[kind] and
  watch_deadline = now + check_interval[kind]".
\<close>

definition start_watching ::
  "observation \<Rightarrow> ('pid, 'sens) Heater \<Rightarrow> ('pid, 'sens) Heater" where
  "start_watching obs h =
     h\<lparr>watch_target_temp := new_watch_target obs, watch_next_ms := new_watch_deadline obs\<rparr>"

text \<open>
  Modelled from the spec: \<^verbatim>\<open>setTarget\<close> is not defined in heater.h. Spec 4.3:
  "set_target(celsius): clamps to [0, maxtemp]; if newly heating upward, re-arms the
  watch window (start_watching)".
\<close>

definition setTarget ::
  "16 word \<Rightarrow> observation \<Rightarrow> ('pid, 'sens) Heater \<Rightarrow> ('pid, 'sens) Heater" where
  "setTarget celsius obs h =
     (let c = (if celsius <s 0 then 0
               else if maxtemp (data h) <s celsius then maxtemp (data h)
               else celsius);
          h1 = h\<lparr>target_temperature := c\<rparr>
      in if heating_up obs then start_watching obs h1 else h1)"

text \<open>
  Modelled from the spec: \<^verbatim>\<open>thermal_runaway_protection\<close> is not defined in heater.h.
  Spec 4.4: Inactive goes to FirstHeating "on becoming Active while heating toward a
  target above current temperature" (with start_watching); FirstHeating goes to Stable
  when the watch target is reached before the deadline, to Runaway when the deadline
  elapses first; Stable goes to Runaway on a sustained out-of-band reading; Runaway is
  terminal and "immediately calls set_fault()".
\<close>

definition thermal_runaway_protection ::
  "observation \<Rightarrow> ('pid, 'sens) Heater \<Rightarrow> ('pid, 'sens) Heater" where
  "thermal_runaway_protection obs h =
     (case thermal_runaway_state h of
        TRInactive \<Rightarrow>
          if isActive h \<and> heating_up obs
          then start_watching obs (h\<lparr>thermal_runaway_state := TRFirstHeating\<rparr>)
          else h
      | TRFirstHeating \<Rightarrow>
          if watch_target_reached obs then h\<lparr>thermal_runaway_state := TRStable\<rparr>
          else if watch_deadline_elapsed obs
          then setFault (h\<lparr>thermal_runaway_state := TRRunaway\<rparr>)
          else h
      | TRStable \<Rightarrow>
          if out_of_band_sustained obs
          then setFault (h\<lparr>thermal_runaway_state := TRRunaway\<rparr>)
          else h
      | TRRunaway \<Rightarrow> setFault h)"

text \<open>
  Modelled from the spec: \<^verbatim>\<open>get_output\<close> is not defined in heater.h. Spec 4.3, output
  computation: "1. If Fault or !Active: pwm_value = 0; skip remaining steps." Steps 2 to
  5 (effective target, PID or bang-bang, hardware inversion) produce the duty that the
  observation carries.
\<close>

definition get_output ::
  "observation \<Rightarrow> ('pid, 'sens) Heater \<Rightarrow> ('pid, 'sens) Heater" where
  "get_output obs h =
     (if isFault h \<or> \<not> isActive h then h\<lparr>pwm_value := 0\<rparr>
      else h\<lparr>pwm_value := regulated_output obs\<rparr>)"

text \<open>
  Modelled from the spec: the per-period regulation step is not defined in heater.h.
  Spec 4.3: "tick(): evaluates min/max bounds, advances the Runaway Automaton, computes
  pwm_value"; spec 4.4: "any tick where current_temperature falls outside
  [mintemp, maxtemp] immediately calls set_fault()".
\<close>

definition tick ::
  "observation \<Rightarrow> ('pid, 'sens) Heater \<Rightarrow> ('pid, 'sens) Heater" where
  "tick obs h =
     get_output obs
       (thermal_runaway_protection obs (if temp_out_of_range obs then setFault h else h))"

subsection \<open>Sequences of operations\<close>

datatype heater_op =
    OpSetActive bool
  | OpSetUsePid bool
  | OpSetPidTuned bool
  | OpSetHWinvert bool
  | OpSetThermalProtection bool
  | OpSetIdle bool "16 word"
  | OpSetFault
  | OpResetFault
  | OpSetPidTuning bool
  | OpResetFlag
  | OpSwitchOff
  | OpSetTarget "16 word" observation
  | OpTick observation

fun apply_op :: "heater_op \<Rightarrow> ('pid, 'sens) Heater \<Rightarrow> ('pid, 'sens) Heater" where
  "apply_op (OpSetActive b) h = setActive b h"
| "apply_op (OpSetUsePid b) h = setUsePid b h"
| "apply_op (OpSetPidTuned b) h = setPidTuned b h"
| "apply_op (OpSetHWinvert b) h = setHWinvert b h"
| "apply_op (OpSetThermalProtection b) h = setThermalProtection b h"
| "apply_op (OpSetIdle b t) h = setIdle b t h"
| "apply_op OpSetFault h = setFault h"
| "apply_op OpResetFault h = ResetFault h"
| "apply_op (OpSetPidTuning b) h = setPidTuning b h"
| "apply_op OpResetFlag h = resetFlag h"
| "apply_op OpSwitchOff h = SwitchOff h"
| "apply_op (OpSetTarget c obs) h = setTarget c obs h"
| "apply_op (OpTick obs) h = tick obs h"

text \<open>The operations run in the order of the list.\<close>

fun run_ops :: "heater_op list \<Rightarrow> ('pid, 'sens) Heater \<Rightarrow> ('pid, 'sens) Heater" where
  "run_ops [] h = h"
| "run_ops (x # xs) h = run_ops xs (apply_op x h)"

text \<open>
  The operations over which the output invariant is stated: setActive, setFault,
  ResetFault, SwitchOff, setIdle, setTarget and the tick.
\<close>

fun regulation_op :: "heater_op \<Rightarrow> bool" where
  "regulation_op (OpSetActive b) = True"
| "regulation_op OpSetFault = True"
| "regulation_op OpResetFault = True"
| "regulation_op OpSwitchOff = True"
| "regulation_op (OpSetIdle b t) = True"
| "regulation_op (OpSetTarget c obs) = True"
| "regulation_op (OpTick obs) = True"
| "regulation_op _ = False"

text \<open>
  \<open>output_settled ops\<close>: no \<^verbatim>\<open>setActive(false)\<close> has been called since the last
  operation that writes \<^verbatim>\<open>pwm_value\<close> for an inactive heater (setFault, ResetFault,
  SwitchOff, the tick). \<open>settle_step d x\<close> is that status after the operation \<open>x\<close>,
  from the status \<open>d\<close> before it.
\<close>

fun settle_step :: "bool \<Rightarrow> heater_op \<Rightarrow> bool" where
  "settle_step d (OpSetActive b) = (d \<and> b)"
| "settle_step d OpSetFault = True"
| "settle_step d OpResetFault = True"
| "settle_step d OpSwitchOff = True"
| "settle_step d (OpTick obs) = True"
| "settle_step d _ = d"

definition output_settled :: "heater_op list \<Rightarrow> bool" where
  "output_settled ops = foldl settle_step True ops"

text \<open>The output invariant of the heater.\<close>

definition output_off_when_inactive :: "('pid, 'sens) Heater \<Rightarrow> bool" where
  "output_off_when_inactive h = ((\<not> isActive h \<or> isFault h) \<longrightarrow> pwm_value h = 0)"

text \<open>
  \<open>configured_zero t\<close> is the zero-initialised heater after the sensor type \<open>t\<close> has
  been written into it (by code outside heater.h).
\<close>

definition configured_zero :: "16 word \<Rightarrow> (unit, unit) Heater" where
  "configured_zero t = Heater_zero\<lparr>sensor := \<lparr>sensor_data_t.type = t\<rparr>\<rparr>"

text \<open>
  What every reachable state satisfies: an active heater has a sensor and no fault, and
  a faulted heater has no output.
\<close>

definition active_sound :: "('pid, 'sens) Heater \<Rightarrow> bool" where
  "active_sound h =
     ((isActive h \<longrightarrow> sensor_data_t.type (sensor h) \<noteq> 0 \<and> \<not> isFault h)
      \<and> (isFault h \<longrightarrow> pwm_value h = 0))"

text \<open>An observation under which the regulation asks for full power.\<close>

definition full_power :: observation where
  "full_power =
     \<lparr> temp_out_of_range = False, heating_up = True, watch_target_reached = False,
       watch_deadline_elapsed = False, out_of_band_sustained = False,
       new_watch_target = 22, new_watch_deadline = 20000, regulated_output = 255 \<rparr>"

definition deactivate_after_tick :: "heater_op list" where
  "deactivate_after_tick = [OpSetActive True, OpTick full_power, OpSetActive False]"


text \<open>The operation is a call \<^verbatim>\<open>setIdle(true, ...)\<close>.\<close>

fun idle_on :: "heater_op \<Rightarrow> bool" where
  "idle_on (OpSetIdle b t) = b"
| "idle_on _ = False"

definition runaway_example :: "(unit, unit) Heater" where
  "runaway_example = Heater_zero\<lparr>thermal_runaway_state := TRRunaway\<rparr>"

section \<open>AVR hardware abstraction (src/HAL/HAL_AVR/HAL_AVR.h)\<close>

subsection \<open>The processor state\<close>

text \<open>
  The part of the AVR the code of HAL_AVR.h reads and writes: the 32 general-purpose
  registers, the status register, the two timer interrupt mask registers and the stack
  (most recent byte first).
\<close>

record avr =
  reg :: "nat \<Rightarrow> 8 word"
  SREG :: "8 word"
  TIMSK0 :: "8 word"
  TIMSK1 :: "8 word"
  stack :: "8 word list"

text \<open>
  Bits of the status register (AVR instruction set): Z zero, N negative, V overflow,
  S sign, I global interrupt enable.
\<close>

definition SREG_Z :: nat where "SREG_Z = 1"
definition SREG_N :: nat where "SREG_N = 2"
definition SREG_V :: nat where "SREG_V = 3"
definition SREG_S :: nat where "SREG_S = 4"
definition SREG_I :: nat where "SREG_I = 7"

definition assign_bit :: "nat \<Rightarrow> bool \<Rightarrow> 8 word \<Rightarrow> 8 word" where
  "assign_bit n b w = (if b then set_bit n w else unset_bit n w)"

text \<open>\<^verbatim>\<open>cli()\<close> and \<^verbatim>\<open>sei()\<close>: the instructions that clear and set the I flag.\<close>

definition cli :: "avr \<Rightarrow> avr" where
  "cli s = s\<lparr>SREG := unset_bit SREG_I (SREG s)\<rparr>"

definition sei :: "avr \<Rightarrow> avr" where
  "sei s = s\<lparr>SREG := set_bit SREG_I (SREG s)\<rparr>"

subsection \<open>\<^verbatim>\<open>class InterruptProtectedBlock\<close>\<close>

record InterruptProtectedBlock =
  sreg :: "8 word"

text \<open>Constructor: \<^verbatim>\<open>sreg = SREG; if (!later) cli();\<close>\<close>

definition InterruptProtectedBlock_ctor ::
  "bool \<Rightarrow> avr \<Rightarrow> InterruptProtectedBlock \<times> avr" where
  "InterruptProtectedBlock_ctor later s =
     (\<lparr>sreg = SREG s\<rparr>, if \<not> later then cli s else s)"

text \<open>Destructor: \<^verbatim>\<open>SREG = sreg;\<close>\<close>

definition InterruptProtectedBlock_dtor :: "InterruptProtectedBlock \<Rightarrow> avr \<Rightarrow> avr" where
  "InterruptProtectedBlock_dtor b s = s\<lparr>SREG := sreg b\<rparr>"

definition protect :: "InterruptProtectedBlock \<Rightarrow> avr \<Rightarrow> avr" where
  "protect b s = cli s"

definition unprotect :: "InterruptProtectedBlock \<Rightarrow> avr \<Rightarrow> avr" where
  "unprotect b s = s\<lparr>SREG := sreg b\<rparr>"

text \<open>
  A scope \<^verbatim>\<open>{ InterruptProtectedBlock noInts(later); body }\<close>. The body may call
  \<^verbatim>\<open>protect\<close> and \<^verbatim>\<open>unprotect\<close> on the block but cannot write its private member;
  it leaves the scope with some result \<open>r\<close> (by reaching the end or by a
  \<^verbatim>\<open>return\<close>), and the destructor runs then.
\<close>

definition protected_scope ::
  "bool \<Rightarrow> (InterruptProtectedBlock \<Rightarrow> avr \<Rightarrow> 'r \<times> avr) \<Rightarrow> avr \<Rightarrow> 'r \<times> avr" where
  "protected_scope later body s =
     (let (b, s1) = InterruptProtectedBlock_ctor later s;
          (r, s2) = body b s1
      in (r, InterruptProtectedBlock_dtor b s2))"

subsection \<open>The instructions of the interrupt handlers\<close>

datatype ioreg = IO_TIMSK0 | IO_TIMSK1

datatype instr =
    PUSH nat              \<comment> \<open>\<^verbatim>\<open>push rN\<close>\<close>
  | POP nat               \<comment> \<open>\<^verbatim>\<open>pop rN\<close>\<close>
  | IN_SREG nat           \<comment> \<open>\<^verbatim>\<open>in rN, __SREG__\<close>\<close>
  | OUT_SREG nat          \<comment> \<open>\<^verbatim>\<open>out __SREG__, rN\<close>\<close>
  | LDS nat ioreg         \<comment> \<open>\<^verbatim>\<open>lds rN, addr\<close>\<close>
  | STS ioreg nat         \<comment> \<open>\<^verbatim>\<open>sts addr, rN\<close>\<close>
  | ANDI nat "8 word"     \<comment> \<open>\<^verbatim>\<open>andi rN, K\<close>\<close>
  | ORI nat "8 word"      \<comment> \<open>\<^verbatim>\<open>ori rN, K\<close>\<close>
  | SEI
  | CLI
  | CLR nat               \<comment> \<open>\<^verbatim>\<open>clr rN\<close>\<close>
  | CALL_bottom           \<comment> \<open>\<^verbatim>\<open>call TIMERn_COMPx_vect_bottom\<close>\<close>
  | RETI

definition load :: "ioreg \<Rightarrow> avr \<Rightarrow> 8 word" where
  "load a s = (case a of IO_TIMSK0 \<Rightarrow> TIMSK0 s | IO_TIMSK1 \<Rightarrow> TIMSK1 s)"

definition store :: "ioreg \<Rightarrow> 8 word \<Rightarrow> avr \<Rightarrow> avr" where
  "store a v s = (case a of IO_TIMSK0 \<Rightarrow> s\<lparr>TIMSK0 := v\<rparr> | IO_TIMSK1 \<Rightarrow> s\<lparr>TIMSK1 := v\<rparr>)"

text \<open>
  The flags a logical instruction (\<^verbatim>\<open>andi\<close>, \<^verbatim>\<open>ori\<close>, \<^verbatim>\<open>clr\<close>) leaves for the
  result \<open>r\<close>: V is cleared, N is bit 7 of the result, Z tells whether it is zero,
  S is N xor V.
\<close>

definition logic_flags :: "8 word \<Rightarrow> 8 word \<Rightarrow> 8 word" where
  "logic_flags r f =
     assign_bit SREG_S (bit r 7)
       (assign_bit SREG_Z (r = 0) (assign_bit SREG_N (bit r 7) (assign_bit SREG_V False f)))"

text \<open>
  One instruction. The called C function is the parameter \<open>bottom\<close>; a \<^verbatim>\<open>pop\<close> from
  an empty stack has no result. \<^verbatim>\<open>reti\<close> sets the I flag (the return address is not
  part of the state).
\<close>

fun exec :: "(avr \<Rightarrow> avr) \<Rightarrow> instr \<Rightarrow> avr \<Rightarrow> avr option" where
  "exec bottom (PUSH r) s = Some (s\<lparr>stack := reg s r # stack s\<rparr>)"
| "exec bottom (POP r) s =
     (case stack s of
        [] \<Rightarrow> None
      | v # vs \<Rightarrow> Some (s\<lparr>reg := (reg s)(r := v), stack := vs\<rparr>))"
| "exec bottom (IN_SREG r) s = Some (s\<lparr>reg := (reg s)(r := SREG s)\<rparr>)"
| "exec bottom (OUT_SREG r) s = Some (s\<lparr>SREG := reg s r\<rparr>)"
| "exec bottom (LDS r a) s = Some (s\<lparr>reg := (reg s)(r := load a s)\<rparr>)"
| "exec bottom (STS a r) s = Some (store a (reg s r) s)"
| "exec bottom (ANDI r k) s =
     Some (s\<lparr>reg := (reg s)(r := reg s r AND k),
             SREG := logic_flags (reg s r AND k) (SREG s)\<rparr>)"
| "exec bottom (ORI r k) s =
     Some (s\<lparr>reg := (reg s)(r := reg s r OR k),
             SREG := logic_flags (reg s r OR k) (SREG s)\<rparr>)"
| "exec bottom SEI s = Some (sei s)"
| "exec bottom CLI s = Some (cli s)"
| "exec bottom (CLR r) s = Some (s\<lparr>reg := (reg s)(r := 0), SREG := logic_flags 0 (SREG s)\<rparr>)"
| "exec bottom CALL_bottom s = Some (bottom s)"
| "exec bottom RETI s = Some (sei s)"

text \<open>A straight-line instruction sequence: the final state, and all states passed.\<close>

fun run :: "(avr \<Rightarrow> avr) \<Rightarrow> instr list \<Rightarrow> avr \<Rightarrow> avr option" where
  "run bottom [] s = Some s"
| "run bottom (i # is) s =
     (case exec bottom i s of None \<Rightarrow> None | Some t \<Rightarrow> run bottom is t)"

fun trace :: "(avr \<Rightarrow> avr) \<Rightarrow> instr list \<Rightarrow> avr \<Rightarrow> avr list option" where
  "trace bottom [] s = Some []"
| "trace bottom (i # is) s =
     (case exec bottom i s of
        None \<Rightarrow> None
      | Some t \<Rightarrow> (case trace bottom is t of None \<Rightarrow> None | Some ts \<Rightarrow> Some (t # ts)))"

subsection \<open>\<^verbatim>\<open>STEPPER_TIMER_ISR\<close> and \<^verbatim>\<open>TEMP_TIMER_ISR\<close>\<close>

text \<open>
  The bit numbers \<^verbatim>\<open>OCIE0B\<close> and \<^verbatim>\<open>OCIE1A\<close> come from the device header
  \<^verbatim>\<open>avr/io.h\<close>; they are parameters here. \<open>msk n\<close> is \<^verbatim>\<open>(uint8_t)(1 << n)\<close>.
\<close>

definition msk :: "nat \<Rightarrow> 8 word" where
  "msk n = push_bit n 1"

definition STEPPER_TIMER_ISR :: "nat \<Rightarrow> nat \<Rightarrow> instr list" where
  "STEPPER_TIMER_ISR ocie0b ocie1a =
     [ PUSH 16,
       IN_SREG 16,
       PUSH 16,
       LDS 16 IO_TIMSK0,
       PUSH 16,
       ANDI 16 (NOT (msk ocie0b)),
       STS IO_TIMSK0 16,
       LDS 16 IO_TIMSK1,
       ANDI 16 (NOT (msk ocie1a)),
       STS IO_TIMSK1 16,
       SEI,
       PUSH 0, PUSH 1, PUSH 18, PUSH 19, PUSH 20, PUSH 21, PUSH 22, PUSH 23, PUSH 24,
       PUSH 25, PUSH 26, PUSH 27, PUSH 30, PUSH 31,
       CLR 1,
       CALL_bottom,
       POP 31, POP 30, POP 27, POP 26, POP 25, POP 24, POP 23, POP 22, POP 21, POP 20,
       POP 19, POP 18, POP 1, POP 0,
       CLI,
       ORI 16 (msk ocie1a),
       STS IO_TIMSK1 16,
       POP 16,
       STS IO_TIMSK0 16,
       POP 16,
       OUT_SREG 16,
       POP 16,
       RETI ]"

definition TEMP_TIMER_ISR :: "nat \<Rightarrow> instr list" where
  "TEMP_TIMER_ISR ocie0b =
     [ PUSH 16,
       IN_SREG 16,
       PUSH 16,
       LDS 16 IO_TIMSK0,
       ANDI 16 (NOT (msk ocie0b)),
       STS IO_TIMSK0 16,
       SEI,
       PUSH 0, PUSH 1, PUSH 18, PUSH 19, PUSH 20, PUSH 21, PUSH 22, PUSH 23, PUSH 24,
       PUSH 25, PUSH 26, PUSH 27, PUSH 30, PUSH 31,
       CLR 1,
       CALL_bottom,
       POP 31, POP 30, POP 27, POP 26, POP 25, POP 24, POP 23, POP 22, POP 21, POP 20,
       POP 19, POP 18, POP 1, POP 0,
       CLI,
       ORI 16 (msk ocie0b),
       STS IO_TIMSK0 16,
       POP 16,
       OUT_SREG 16,
       POP 16,
       RETI ]"

text \<open>
  The handlers in parts, to name the states between them: up to the call of the bottom
  handler, from the call through \<^verbatim>\<open>cli\<close>, the restoring of the mask registers, and
  the return.
\<close>

definition c_prologue :: "instr list" where
  "c_prologue =
     [ PUSH 0, PUSH 1, PUSH 18, PUSH 19, PUSH 20, PUSH 21, PUSH 22, PUSH 23, PUSH 24,
       PUSH 25, PUSH 26, PUSH 27, PUSH 30, PUSH 31, CLR 1 ]"

definition c_epilogue :: "instr list" where
  "c_epilogue =
     [ POP 31, POP 30, POP 27, POP 26, POP 25, POP 24, POP 23, POP 22, POP 21, POP 20,
       POP 19, POP 18, POP 1, POP 0 ]"

definition stepper_entry :: "nat \<Rightarrow> nat \<Rightarrow> instr list" where
  "stepper_entry ocie0b ocie1a =
     [ PUSH 16, IN_SREG 16, PUSH 16, LDS 16 IO_TIMSK0, PUSH 16,
       ANDI 16 (NOT (msk ocie0b)), STS IO_TIMSK0 16,
       LDS 16 IO_TIMSK1, ANDI 16 (NOT (msk ocie1a)), STS IO_TIMSK1 16, SEI ]"

definition stepper_restore :: "nat \<Rightarrow> instr list" where
  "stepper_restore ocie1a = [ ORI 16 (msk ocie1a), STS IO_TIMSK1 16, POP 16, STS IO_TIMSK0 16 ]"

definition temp_entry :: "nat \<Rightarrow> instr list" where
  "temp_entry ocie0b =
     [ PUSH 16, IN_SREG 16, PUSH 16, LDS 16 IO_TIMSK0,
       ANDI 16 (NOT (msk ocie0b)), STS IO_TIMSK0 16, SEI ]"

definition temp_restore :: "nat \<Rightarrow> instr list" where
  "temp_restore ocie0b = [ ORI 16 (msk ocie0b), STS IO_TIMSK0 16 ]"

definition isr_return :: "instr list" where
  "isr_return = [ POP 16, OUT_SREG 16, POP 16, RETI ]"

text \<open>
  What the handlers rely on in the bottom handler, a C function: it returns with the
  stack as it found it and with the call-saved register r16 unchanged.
\<close>

definition abi_conforming :: "(avr \<Rightarrow> avr) \<Rightarrow> bool" where
  "abi_conforming f = (\<forall>t. stack (f t) = stack t \<and> reg (f t) 16 = reg t 16)"

subsection \<open>What runs while the temperature handler's body runs\<close>

text \<open>
  Global interrupts are enabled during the body, so the body is a sequence of events:
  a step of the body itself (or of another handler that returns to it), or the motion
  interrupt, which enters \<^verbatim>\<open>STEPPER_TIMER_ISR\<close> with the I flag cleared by the
  hardware and runs its own bottom handler. \<open>body_trace\<close> lists every state passed,
  those inside the motion handler included.
\<close>

datatype event = Own "avr \<Rightarrow> avr" | Stepper_IRQ "avr \<Rightarrow> avr"

fun body_trace :: "nat \<Rightarrow> nat \<Rightarrow> event list \<Rightarrow> avr \<Rightarrow> avr list option" where
  "body_trace a b [] s = Some []"
| "body_trace a b (Own f # es) s =
     (case body_trace a b es (f s) of None \<Rightarrow> None | Some ts \<Rightarrow> Some (f s # ts))"
| "body_trace a b (Stepper_IRQ g # es) s =
     (case trace g (STEPPER_TIMER_ISR a b) (cli s) of
        None \<Rightarrow> None
      | Some us \<Rightarrow>
          (case body_trace a b es (last (cli s # us)) of
             None \<Rightarrow> None
           | Some ts \<Rightarrow> Some (cli s # us @ ts)))"

text \<open>The state in which the body returns (the state it started in if it got stuck).\<close>

definition body_result :: "nat \<Rightarrow> nat \<Rightarrow> event list \<Rightarrow> avr \<Rightarrow> avr" where
  "body_result a b es s = (case body_trace a b es s of None \<Rightarrow> s | Some ts \<Rightarrow> last (s # ts))"

text \<open>
  An event that leaves the temperature channel's enable bit to the two handlers: a step
  that does not write the bit, or a motion interrupt whose bottom handler does not write
  it and conforms to the calling convention.
\<close>

fun quiet :: "nat \<Rightarrow> event \<Rightarrow> bool" where
  "quiet a (Own f) = (\<forall>t. bit (TIMSK0 (f t)) a = bit (TIMSK0 t) a)"
| "quiet a (Stepper_IRQ g) =
     ((\<forall>t. bit (TIMSK0 (g t)) a = bit (TIMSK0 t) a) \<and> abi_conforming g)"


text \<open>
  A step or a bottom handler that returns with the stack and r16 as it found them, event
  by event.
\<close>

fun event_abi :: "event \<Rightarrow> bool" where
  "event_abi (Own f) = abi_conforming f"
| "event_abi (Stepper_IRQ g) = abi_conforming g"

subsection \<open>Example states and handlers\<close>

text \<open>
  A state in which an interrupt is entered (I cleared by the hardware, Z set), with both
  compare interrupts of timer 0 and the compare A interrupt of timer 1 enabled; on the
  ATmega devices \<^verbatim>\<open>OCIE0B\<close> is bit 2 of TIMSK0 and \<^verbatim>\<open>OCIE1A\<close> is bit 1 of TIMSK1.
\<close>

definition isr_entry_state :: avr where
  "isr_entry_state =
     \<lparr> reg = (\<lambda>n. of_nat n), SREG = 2, TIMSK0 = 6, TIMSK1 = 2, stack = [171, 205] \<rparr>"

text \<open>A bottom handler that overwrites TIMSK0, the flags and two call-clobbered registers.\<close>

definition greedy_bottom :: "avr \<Rightarrow> avr" where
  "greedy_bottom t = t\<lparr> reg := (reg t)(24 := 0, 25 := 1), SREG := 53, TIMSK0 := 255 \<rparr>"

text \<open>
  A body of the temperature handler that is preempted by the motion interrupt between
  two of its steps; the motion handler's bottom sets another bit of TIMSK0.
\<close>

definition sampling_step :: "avr \<Rightarrow> avr" where
  "sampling_step t = t\<lparr> reg := (reg t)(24 := 7) \<rparr>"

definition motion_bottom :: "avr \<Rightarrow> avr" where
  "motion_bottom t = t\<lparr> reg := (reg t)(25 := 1), SREG := 53, TIMSK0 := TIMSK0 t OR 1 \<rparr>"

definition preempted_body :: "event list" where
  "preempted_body = [Own sampling_step, Stepper_IRQ motion_bottom, Own sampling_step]"

section \<open>Properties of the heater\<close>

subsection \<open>The flag byte\<close>

lemma flag_pos_less: "flag_pos f < 8"
  by (cases f) simp_all

lemma flag_pos_inj: "flag_pos f = flag_pos g \<longleftrightarrow> f = g"
  by (cases f; cases g) simp_all

lemma get_put_flag: "get_flag f (put_flag g b w) = (if f = g then b else get_flag f w)"
  using flag_pos_less [of f]
  by (auto simp add: get_flag_def put_flag_def bit_simps flag_pos_inj)

lemma get_flag_zero: "get_flag f 0 = False"
  by (simp add: get_flag_def)

lemma put_flag_absorb: "put_flag f b (put_flag f c w) = put_flag f b w"
  by (rule bit_eqI) (auto simp add: put_flag_def bit_simps)

lemma put_flag_commute:
  "f \<noteq> g \<Longrightarrow> put_flag f b (put_flag g c w) = put_flag g c (put_flag f b w)"
  by (rule bit_eqI) (auto simp add: put_flag_def bit_simps flag_pos_inj)

lemmas heater_defs = isActive_def isFault_def assign_flag_def setActive_def setFault_def
  SwitchOff_def ResetFault_def setIdle_def setIdle_default_def resetFlag_def

lemmas op_defs = heater_defs tick_def get_output_def thermal_runaway_protection_def
  setTarget_def start_watching_def Let_def

subsection \<open>setFault, ResetFault, setActive, setIdle, resetFlag\<close>

text \<open>
  C2. From every heater state, \<^verbatim>\<open>setFault()\<close> establishes \<^verbatim>\<open>pwm_value == 0\<close>,
  \<^verbatim>\<open>Active == false\<close> and \<^verbatim>\<open>Fault == true\<close>, and calling it a second time leaves
  the whole heater object as the first call left it.
\<close>

theorem setFault_forces_safe_state:
  "pwm_value (setFault h) = 0 \<and> \<not> isActive (setFault h) \<and> isFault (setFault h)
   \<and> setFault (setFault h) = setFault h"
  by (simp add: heater_defs get_put_flag put_flag_absorb put_flag_commute [of Fault Active])

text \<open>
  C3. From every heater state, \<^verbatim>\<open>ResetFault()\<close> yields \<^verbatim>\<open>Fault == false\<close>,
  \<^verbatim>\<open>Active == false\<close>, \<^verbatim>\<open>target_temperature == 0\<close> and \<^verbatim>\<open>pwm_value == 0\<close>: the
  heater is left switched off, not heating.
\<close>

theorem ResetFault_shuts_off:
  "\<not> isFault (ResetFault h) \<and> \<not> isActive (ResetFault h)
   \<and> target_temperature (ResetFault h) = 0 \<and> pwm_value (ResetFault h) = 0"
  by (simp add: heater_defs get_put_flag)

text \<open>
  C4. After \<^verbatim>\<open>setActive(onoff)\<close> the flag Active is true exactly when \<^verbatim>\<open>onoff\<close> is
  true, Fault is false and a sensor is configured (\<^verbatim>\<open>sensor.type != 0\<close>); in every
  other case it is false. The call does not change Fault.
\<close>

theorem setActive_iff:
  "isActive (setActive onoff h)
     = (onoff \<and> \<not> isFault h \<and> sensor_data_t.type (sensor h) \<noteq> 0)
   \<and> isFault (setActive onoff h) = isFault h"
  by (auto simp add: heater_defs get_put_flag)

text \<open>
  C9. Every call \<^verbatim>\<open>setIdle(onoff, idle_temp)\<close> overwrites \<^verbatim>\<open>idle_temperature\<close> with
  \<^verbatim>\<open>idle_temp\<close>, whatever \<^verbatim>\<open>onoff\<close> is; \<^verbatim>\<open>setIdle(false)\<close> with the default argument
  sets it to 0; and \<^verbatim>\<open>setIdle(false, ...)\<close> leaves the thermal runaway state as it was.
\<close>

theorem setIdle_overwrites:
  "idle_temperature (setIdle onoff idle_temp h) = idle_temp
   \<and> idle_temperature (setIdle_default False h) = 0
   \<and> thermal_runaway_state (setIdle False idle_temp h) = thermal_runaway_state h"
  by (simp add: heater_defs Let_def)

text \<open>
  C10. \<^verbatim>\<open>resetFlag()\<close> clears all eight flags at once and changes no other member of
  the heater: \<^verbatim>\<open>pwm_value\<close> and \<^verbatim>\<open>target_temperature\<close> in particular keep their
  values, so Fault is cleared without the output shutoff of \<^verbatim>\<open>ResetFault()\<close>.
\<close>

theorem resetFlag_clears_flags_only:
  "(\<forall>f. \<not> get_flag f (flag (data (resetFlag h))))
   \<and> \<not> isActive (resetFlag h) \<and> \<not> isUsePid (resetFlag h) \<and> \<not> isPidTuned (resetFlag h)
   \<and> \<not> isHWinvert (resetFlag h) \<and> \<not> isThermalProtection (resetFlag h)
   \<and> \<not> isIdle (resetFlag h) \<and> \<not> isFault (resetFlag h) \<and> \<not> isPidTuning (resetFlag h)
   \<and> pwm_value (resetFlag h) = pwm_value h
   \<and> target_temperature (resetFlag h) = target_temperature h
   \<and> heater_data_t.type (data (resetFlag h)) = heater_data_t.type (data h)
   \<and> pin (data (resetFlag h)) = pin (data h)
   \<and> ID (data (resetFlag h)) = ID (data h)
   \<and> mintemp (data (resetFlag h)) = mintemp (data h)
   \<and> maxtemp (data (resetFlag h)) = maxtemp (data h)
   \<and> pid (resetFlag h) = pid h
   \<and> sensor (resetFlag h) = sensor h
   \<and> watch_target_temp (resetFlag h) = watch_target_temp h
   \<and> consecutive_low_temp (resetFlag h) = consecutive_low_temp h
   \<and> idle_temperature (resetFlag h) = idle_temperature h
   \<and> current_temperature (resetFlag h) = current_temperature h
   \<and> thermal_runaway_state (resetFlag h) = thermal_runaway_state h
   \<and> watch_next_ms (resetFlag h) = watch_next_ms h
   \<and> idle_timeout_time (resetFlag h) = idle_timeout_time h"
  by (simp add: resetFlag_def get_flag_zero isActive_def isUsePid_def isPidTuned_def
      isHWinvert_def isThermalProtection_def isIdle_def isFault_def isPidTuning_def)

subsection \<open>The thermal runaway state\<close>

lemma trs_assign_flag: "thermal_runaway_state (assign_flag f b h) = thermal_runaway_state h"
  by (simp add: assign_flag_def)

lemma trs_setActive: "thermal_runaway_state (setActive b h) = thermal_runaway_state h"
  by (simp add: setActive_def trs_assign_flag)

lemma trs_setFault: "thermal_runaway_state (setFault h) = thermal_runaway_state h"
  by (simp add: setFault_def trs_assign_flag trs_setActive)

lemma trs_SwitchOff: "thermal_runaway_state (SwitchOff h) = thermal_runaway_state h"
  by (simp add: SwitchOff_def trs_setActive)

lemma trs_tick_Runaway:
  "thermal_runaway_state h = TRRunaway \<Longrightarrow> thermal_runaway_state (tick obs h) = TRRunaway"
  by (simp add: tick_def get_output_def thermal_runaway_protection_def trs_setFault)

text \<open>
  C5. \<^verbatim>\<open>setIdle(true, idle_temp)\<close> sets the thermal runaway state to \<^verbatim>\<open>TRInactive\<close>
  from every heater state and for every \<^verbatim>\<open>idle_temp\<close>. From the state \<^verbatim>\<open>TRRunaway\<close>
  no other operation does: each of the other member functions of heater.h, setTarget
  and the tick leaves the state \<^verbatim>\<open>TRRunaway\<close>. (Re-initialisation by \<^verbatim>\<open>init()\<close> is
  not among the operations.)
\<close>

theorem setIdle_rearms_runaway:
  "thermal_runaway_state (setIdle True idle_temp h) = TRInactive
   \<and> (thermal_runaway_state h = TRRunaway \<longrightarrow>
        thermal_runaway_state (apply_op x h) = (if idle_on x then TRInactive else TRRunaway))"
  by (cases x)
     (simp_all add: setIdle_def Let_def trs_assign_flag trs_setActive trs_setFault
        trs_SwitchOff trs_tick_Runaway setUsePid_def setPidTuned_def setHWinvert_def
        setThermalProtection_def setPidTuning_def ResetFault_def resetFlag_def
        setTarget_def start_watching_def)

theorem setIdle_rearms_runaway_witness:
  "thermal_runaway_state runaway_example = TRRunaway
   \<and> thermal_runaway_state (apply_op (OpSetIdle True 40) runaway_example) = TRInactive
   \<and> thermal_runaway_state (apply_op OpResetFault runaway_example) = TRRunaway
   \<and> thermal_runaway_state (apply_op (OpTick full_power) runaway_example) = TRRunaway"
  using setIdle_rearms_runaway [of 0 runaway_example "OpSetIdle True 40"]
    setIdle_rearms_runaway [of 0 runaway_example "OpResetFault"]
    setIdle_rearms_runaway [of 0 runaway_example "OpTick full_power"]
  by (simp add: runaway_example_def)

subsection \<open>The output invariant\<close>

lemma active_sound_step:
  "regulation_op x \<Longrightarrow> active_sound h \<Longrightarrow> active_sound (apply_op x h)"
  by (cases x) (auto simp add: active_sound_def op_defs get_put_flag split: TRState.splits)

lemma settle_step_sound:
  "regulation_op x \<Longrightarrow> active_sound h \<Longrightarrow> (d \<longrightarrow> output_off_when_inactive h) \<Longrightarrow>
   settle_step d x \<longrightarrow> output_off_when_inactive (apply_op x h)"
  by (cases x)
     (auto simp add: active_sound_def output_off_when_inactive_def op_defs get_put_flag
        split: TRState.splits)

lemma run_ops_invariant:
  "list_all regulation_op ops \<Longrightarrow> active_sound h \<Longrightarrow> (d \<longrightarrow> output_off_when_inactive h) \<Longrightarrow>
   active_sound (run_ops ops h)
   \<and> (foldl settle_step d ops \<longrightarrow> output_off_when_inactive (run_ops ops h))"
proof (induction ops arbitrary: h d)
  case Nil
  then show ?case by simp
next
  case (Cons x xs)
  from Cons.prems have x: "regulation_op x" and xs: "list_all regulation_op xs"
    by simp_all
  have 1: "active_sound (apply_op x h)"
    using x Cons.prems(2) by (rule active_sound_step)
  have 2: "settle_step d x \<longrightarrow> output_off_when_inactive (apply_op x h)"
    using x Cons.prems(2,3) by (rule settle_step_sound)
  from Cons.IH [OF xs 1 2] show ?case by simp
qed

lemma configured_zero_sound:
  "active_sound (configured_zero t) \<and> output_off_when_inactive (configured_zero t)"
  by (simp add: active_sound_def output_off_when_inactive_def configured_zero_def Heater_zero_def
      isActive_def isFault_def get_flag_zero)




subsection \<open>A heater whose sensor has been configured\<close>

text \<open>
  The invariant above rests on \<^verbatim>\<open>sensor.type == 0\<close>. Once a sensor type has been
  written into the object (by code outside heater.h), \<^verbatim>\<open>setActive\<close> can set Active and
  the tick can compute an output. \<^verbatim>\<open>setActive(false)\<close> then clears the flag only:
  after \<^verbatim>\<open>setActive(true)\<close>, a tick that computes full power and \<^verbatim>\<open>setActive(false)\<close>
  the heater has \<^verbatim>\<open>Active == false\<close> and \<^verbatim>\<open>pwm_value == 255\<close>.
\<close>

lemma configured_deactivation_keeps_output:
  "list_all regulation_op deactivate_after_tick
   \<and> \<not> isActive (run_ops deactivate_after_tick (configured_zero 1))
   \<and> pwm_value (run_ops deactivate_after_tick (configured_zero 1)) = 255
   \<and> \<not> output_off_when_inactive (run_ops deactivate_after_tick (configured_zero 1))"
  by (simp add: deactivate_after_tick_def output_off_when_inactive_def op_defs configured_zero_def
      Heater_zero_def full_power_def get_put_flag get_flag_zero)

text \<open>
  For every sensor type, a faulted heater has no output, and an inactive heater has no
  output as long as \<^verbatim>\<open>setActive(false)\<close> has not been called since the last setFault,
  ResetFault, SwitchOff or tick.
\<close>

lemma configured_output_off_when_settled:
  "list_all regulation_op ops \<Longrightarrow>
   (isFault (run_ops ops (configured_zero t)) \<longrightarrow>
      pwm_value (run_ops ops (configured_zero t)) = 0)
   \<and> (output_settled ops \<longrightarrow> output_off_when_inactive (run_ops ops (configured_zero t)))"
  using run_ops_invariant [of ops "configured_zero t" True] configured_zero_sound [of t]
  by (simp add: output_settled_def active_sound_def)

section \<open>Properties of the AVR hardware abstraction\<close>

subsection \<open>The critical-section guard\<close>

text \<open>
  C6. For every value S of SREG, the constructor of \<^verbatim>\<open>InterruptProtectedBlock\<close>
  records S and, unless \<^verbatim>\<open>later\<close> is true, clears the I flag (leaving the other bits
  of SREG); with \<^verbatim>\<open>later\<close> true SREG is left as it is and a later \<^verbatim>\<open>protect()\<close>
  clears the I flag; the destructor sets SREG to the recorded value; and a scope guarded by the
  block, whatever its body does to SREG and however it is left, ends with SREG equal to
  S, for both values of \<^verbatim>\<open>later\<close>. The result of the body is passed on unchanged.
\<close>

theorem InterruptProtectedBlock_round_trip:
  "sreg (fst (InterruptProtectedBlock_ctor later s)) = SREG s
   \<and> SREG (snd (InterruptProtectedBlock_ctor later s))
       = (if later then SREG s else unset_bit SREG_I (SREG s))
   \<and> \<not> bit (SREG (snd (InterruptProtectedBlock_ctor False s))) SREG_I
   \<and> \<not> bit (SREG (protect (fst (InterruptProtectedBlock_ctor True s)) s')) SREG_I
   \<and> SREG (InterruptProtectedBlock_dtor (fst (InterruptProtectedBlock_ctor later s)) s') = SREG s
   \<and> SREG (snd (protected_scope later body s)) = SREG s
   \<and> fst (protected_scope later body s)
       = fst (body (fst (InterruptProtectedBlock_ctor later s))
                   (snd (InterruptProtectedBlock_ctor later s)))"
  by (simp add: InterruptProtectedBlock_ctor_def InterruptProtectedBlock_dtor_def
      protected_scope_def protect_def cli_def bit_simps split: prod.splits)

subsection \<open>Running the interrupt handlers\<close>

lemma run_append:
  "run f (p @ q) s = (case run f p s of None \<Rightarrow> None | Some t \<Rightarrow> run f q t)"
  by (induction p arbitrary: s) (auto split: option.splits)

lemma run_append_Some: "run f p s = Some t \<Longrightarrow> run f (p @ q) s = run f q t"
  by (simp add: run_append)

lemma STEPPER_TIMER_ISR_parts:
  "STEPPER_TIMER_ISR a b =
     (stepper_entry a b @ c_prologue) @ CALL_bottom # (c_epilogue @ [CLI])
       @ stepper_restore b @ isr_return"
  by (simp add: STEPPER_TIMER_ISR_def stepper_entry_def c_prologue_def c_epilogue_def
      stepper_restore_def isr_return_def)

lemma TEMP_TIMER_ISR_parts:
  "TEMP_TIMER_ISR a =
     (temp_entry a @ c_prologue) @ CALL_bottom # (c_epilogue @ [CLI])
       @ temp_restore a @ isr_return"
  by (simp add: TEMP_TIMER_ISR_def temp_entry_def c_prologue_def c_epilogue_def
      temp_restore_def isr_return_def)

lemma bit_logic_flags_I: "bit (logic_flags r f) SREG_I = bit f SREG_I"
  by (simp add: logic_flags_def assign_bit_def bit_simps SREG_I_def SREG_S_def SREG_Z_def
      SREG_N_def SREG_V_def)

lemma bit_clear_msk: "bit (w AND NOT (msk a)) n = (bit w n \<and> n \<noteq> a)"
  by (auto simp add: msk_def bit_simps dest: bit_imp_le_length)

lemma abi_stack: "abi_conforming f \<Longrightarrow> stack (f t) = stack t"
  by (simp add: abi_conforming_def)

lemma abi_r16: "abi_conforming f \<Longrightarrow> reg (f t) 16 = reg t 16"
  by (simp add: abi_conforming_def)

lemma run_stepper_to_call:
  "run f (stepper_entry a b @ c_prologue) s =
     Some (s\<lparr> reg := (reg s)(16 := TIMSK1 s AND NOT (msk b), 1 := 0),
              SREG := logic_flags 0 (set_bit SREG_I (logic_flags (TIMSK1 s AND NOT (msk b))
                        (logic_flags (TIMSK0 s AND NOT (msk a)) (SREG s)))),
              TIMSK0 := TIMSK0 s AND NOT (msk a),
              TIMSK1 := TIMSK1 s AND NOT (msk b),
              stack := [reg s 31, reg s 30, reg s 27, reg s 26, reg s 25, reg s 24, reg s 23,
                        reg s 22, reg s 21, reg s 20, reg s 19, reg s 18, reg s 1, reg s 0,
                        TIMSK0 s, SREG s, reg s 16] @ stack s \<rparr>)"
  by (simp add: stepper_entry_def c_prologue_def load_def store_def sei_def)

lemma run_c_epilogue_cli:
  "stack t = v31 # v30 # v27 # v26 # v25 # v24 # v23 # v22 # v21 # v20 # v19 # v18 # v1 # v0 # rest
   \<Longrightarrow> run f (c_epilogue @ [CLI]) t =
     Some (t\<lparr> reg := (reg t)(31 := v31, 30 := v30, 27 := v27, 26 := v26, 25 := v25, 24 := v24,
                 23 := v23, 22 := v22, 21 := v21, 20 := v20, 19 := v19, 18 := v18, 1 := v1, 0 := v0),
              SREG := unset_bit SREG_I (SREG t),
              stack := rest \<rparr>)"
  by (simp add: c_epilogue_def cli_def)

lemma run_stepper_restore:
  "stack t = k0 # rest \<Longrightarrow> run f (stepper_restore b) t =
     Some (t\<lparr> reg := (reg t)(16 := k0),
              SREG := logic_flags (reg t 16 OR msk b) (SREG t),
              TIMSK1 := reg t 16 OR msk b,
              TIMSK0 := k0,
              stack := rest \<rparr>)"
  by (simp add: stepper_restore_def store_def)

lemma run_isr_return:
  "stack t = f0 # r16 # rest \<Longrightarrow> run f isr_return t =
     Some (t\<lparr> reg := (reg t)(16 := r16), SREG := set_bit SREG_I f0, stack := rest \<rparr>)"
  by (simp add: isr_return_def sei_def)


lemma trace_STEPPER_TIMER_ISR_quiet:
  assumes abi: "abi_conforming g"
    and q: "\<forall>t. bit (TIMSK0 (g t)) a = bit (TIMSK0 t) a"
    and s: "\<not> bit (TIMSK0 s) a"
  shows "\<exists>us. trace g (STEPPER_TIMER_ISR a b) s = Some us
           \<and> (\<forall>t\<in>set us. \<not> bit (TIMSK0 t) a)"
  using q s
  by (simp add: STEPPER_TIMER_ISR_def load_def store_def sei_def cli_def
      abi_stack [OF abi] abi_r16 [OF abi] bit_clear_msk)


lemma run_trace:
  "run f p s = (case trace f p s of None \<Rightarrow> None | Some ts \<Rightarrow> Some (last (s # ts)))"
  by (induction p arbitrary: s) (auto split: option.splits)

lemma bit_SREG_I_set: "bit (set_bit SREG_I (w :: 8 word)) SREG_I"
  by (simp add: bit_simps SREG_I_def)

lemma bit_SREG_I_unset: "\<not> bit (unset_bit SREG_I (w :: 8 word)) SREG_I"
  by (simp add: bit_simps SREG_I_def)

lemma unset_bit_msk: "w AND NOT (msk a) = unset_bit a w"
  by (rule bit_eqI) (auto simp add: msk_def bit_simps dest: bit_imp_le_length)

lemma set_bit_msk: "w OR msk a = set_bit a w"
  by (rule bit_eqI) (auto simp add: msk_def bit_simps dest: bit_imp_le_length)


lemma run_STEPPER_TIMER_ISR:
  assumes abi: "abi_conforming bottom"
  shows "\<exists>s1 s2 s3 s4.
      run bottom (stepper_entry a b @ c_prologue) s = Some s1
    \<and> TIMSK0 s1 = unset_bit a (TIMSK0 s)
    \<and> drop 14 (stack s1) = TIMSK0 s # SREG s # reg s 16 # stack s
    \<and> bit (SREG s1) SREG_I
    \<and> run bottom (c_epilogue @ [CLI]) (bottom s1) = Some s2
    \<and> \<not> bit (SREG s2) SREG_I
    \<and> run bottom (stepper_restore b) s2 = Some s3
    \<and> \<not> bit (SREG s3) SREG_I \<and> TIMSK0 s3 = TIMSK0 s
    \<and> run bottom isr_return s3 = Some s4
    \<and> TIMSK0 s4 = TIMSK0 s \<and> stack s4 = stack s \<and> reg s4 16 = reg s 16
    \<and> SREG s4 = set_bit SREG_I (SREG s)
    \<and> run bottom (STEPPER_TIMER_ISR a b) s = Some s4"
proof -
  obtain s1 where s1: "run bottom (stepper_entry a b @ c_prologue) s = Some s1"
    and s1_TIMSK0: "TIMSK0 s1 = unset_bit a (TIMSK0 s)"
    and s1_stack: "stack s1 = [reg s 31, reg s 30, reg s 27, reg s 26, reg s 25, reg s 24,
          reg s 23, reg s 22, reg s 21, reg s 20, reg s 19, reg s 18, reg s 1, reg s 0,
          TIMSK0 s, SREG s, reg s 16] @ stack s"
    and s1_I: "bit (SREG s1) SREG_I"
    by (simp add: run_stepper_to_call bit_logic_flags_I bit_SREG_I_set unset_bit_msk)
  have c_stack: "stack (bottom s1) = reg s 31 # reg s 30 # reg s 27 # reg s 26 # reg s 25
        # reg s 24 # reg s 23 # reg s 22 # reg s 21 # reg s 20 # reg s 19 # reg s 18
        # reg s 1 # reg s 0 # TIMSK0 s # SREG s # reg s 16 # stack s"
    using abi_stack [OF abi, of s1] s1_stack by simp
  obtain s2 where s2: "run bottom (c_epilogue @ [CLI]) (bottom s1) = Some s2"
    and s2_stack: "stack s2 = TIMSK0 s # SREG s # reg s 16 # stack s"
    and s2_I: "\<not> bit (SREG s2) SREG_I"
    by (simp add: run_c_epilogue_cli [OF c_stack] bit_SREG_I_unset)
  obtain s3 where s3: "run bottom (stepper_restore b) s2 = Some s3"
    and s3_stack: "stack s3 = SREG s # reg s 16 # stack s"
    and s3_I: "\<not> bit (SREG s3) SREG_I"
    and s3_TIMSK0: "TIMSK0 s3 = TIMSK0 s"
    using s2_I by (simp add: run_stepper_restore [OF s2_stack] bit_logic_flags_I)
  obtain s4 where s4: "run bottom isr_return s3 = Some s4"
    and s4_frame: "TIMSK0 s4 = TIMSK0 s" "stack s4 = stack s" "reg s4 16 = reg s 16"
      "SREG s4 = set_bit SREG_I (SREG s)"
    using s3_TIMSK0 by (simp add: run_isr_return [OF s3_stack])
  have "run bottom (STEPPER_TIMER_ISR a b) s
          = run bottom (CALL_bottom # (c_epilogue @ [CLI]) @ stepper_restore b @ isr_return) s1"
    unfolding STEPPER_TIMER_ISR_parts using s1 by (rule run_append_Some)
  also have "\<dots> = run bottom ((c_epilogue @ [CLI]) @ stepper_restore b @ isr_return) (bottom s1)"
    by simp
  also have "\<dots> = run bottom (stepper_restore b @ isr_return) s2"
    using s2 by (rule run_append_Some)
  also have "\<dots> = run bottom isr_return s3"
    using s3 by (rule run_append_Some)
  finally have whole: "run bottom (STEPPER_TIMER_ISR a b) s = Some s4"
    using s4 by simp
  from s1 s1_TIMSK0 s1_stack s1_I s2 s2_I s3 s3_I s3_TIMSK0 s4 s4_frame whole
  show ?thesis by simp
qed

text \<open>
  C7. The motion handler \<^verbatim>\<open>STEPPER_TIMER_ISR\<close>, for every state \<open>s\<close> it is entered
  in and every bottom handler that conforms to the calling convention (whatever path it
  takes to its return): at the call of the bottom handler the bit \<^verbatim>\<open>OCIE0B\<close> of
  TIMSK0 is cleared and the other bits are those of \<open>s\<close>, the value TIMSK0 had in
  \<open>s\<close> is saved on the stack, and the I flag is set; after the bottom handler the I
  flag is cleared by \<^verbatim>\<open>cli\<close> and stays cleared while the mask registers are written;
  TIMSK0 is then, and at the return, exactly TIMSK0 of \<open>s\<close>, all bits.
\<close>

theorem stepper_isr_masks_and_restores:
  assumes "abi_conforming bottom"
  shows "\<exists>s1 s2 s3 s4.
      run bottom (stepper_entry a b @ c_prologue) s = Some s1
    \<and> TIMSK0 s1 = unset_bit a (TIMSK0 s) \<and> \<not> bit (TIMSK0 s1) a
    \<and> drop 14 (stack s1) = TIMSK0 s # SREG s # reg s 16 # stack s
    \<and> bit (SREG s1) SREG_I
    \<and> run bottom (c_epilogue @ [CLI]) (bottom s1) = Some s2
    \<and> \<not> bit (SREG s2) SREG_I
    \<and> run bottom (stepper_restore b) s2 = Some s3
    \<and> \<not> bit (SREG s3) SREG_I \<and> TIMSK0 s3 = TIMSK0 s
    \<and> run bottom isr_return s3 = Some s4
    \<and> TIMSK0 s4 = TIMSK0 s
    \<and> run bottom (STEPPER_TIMER_ISR a b) s = Some s4"
proof -
  from run_STEPPER_TIMER_ISR [OF assms, of a b s] obtain s1 s2 s3 s4 where
    *: "run bottom (stepper_entry a b @ c_prologue) s = Some s1"
      "TIMSK0 s1 = unset_bit a (TIMSK0 s)"
      "drop 14 (stack s1) = TIMSK0 s # SREG s # reg s 16 # stack s"
      "bit (SREG s1) SREG_I"
      "run bottom (c_epilogue @ [CLI]) (bottom s1) = Some s2"
      "\<not> bit (SREG s2) SREG_I"
      "run bottom (stepper_restore b) s2 = Some s3"
      "\<not> bit (SREG s3) SREG_I" "TIMSK0 s3 = TIMSK0 s"
      "run bottom isr_return s3 = Some s4"
      "TIMSK0 s4 = TIMSK0 s"
      "run bottom (STEPPER_TIMER_ISR a b) s = Some s4"
    by blast
  have "\<not> bit (TIMSK0 s1) a"
    by (simp add: *(2) bit_simps)
  with * show ?thesis by blast
qed

theorem stepper_isr_masks_and_restores_witness:
  "abi_conforming greedy_bottom
   \<and> (\<exists>t. run greedy_bottom (STEPPER_TIMER_ISR 2 1) isr_entry_state = Some t \<and> TIMSK0 t = 6)"
proof -
  have abi: "abi_conforming greedy_bottom"
    by (simp add: abi_conforming_def greedy_bottom_def)
  from stepper_isr_masks_and_restores [OF abi, of 2 1 isr_entry_state]
  show ?thesis using abi by (auto simp add: isr_entry_state_def)
qed


lemma run_temp_to_call:
  "run f (temp_entry a @ c_prologue) s =
     Some (s\<lparr> reg := (reg s)(16 := TIMSK0 s AND NOT (msk a), 1 := 0),
              SREG := logic_flags 0 (set_bit SREG_I
                        (logic_flags (TIMSK0 s AND NOT (msk a)) (SREG s))),
              TIMSK0 := TIMSK0 s AND NOT (msk a),
              stack := [reg s 31, reg s 30, reg s 27, reg s 26, reg s 25, reg s 24, reg s 23,
                        reg s 22, reg s 21, reg s 20, reg s 19, reg s 18, reg s 1, reg s 0,
                        SREG s, reg s 16] @ stack s \<rparr>)"
  by (simp add: temp_entry_def c_prologue_def load_def store_def sei_def)

lemma run_temp_restore:
  "run f (temp_restore a) t =
     Some (t\<lparr> reg := (reg t)(16 := reg t 16 OR msk a),
              SREG := logic_flags (reg t 16 OR msk a) (SREG t),
              TIMSK0 := reg t 16 OR msk a \<rparr>)"
  by (simp add: temp_restore_def store_def)

lemma cli_frame: "TIMSK0 (cli s) = TIMSK0 s" "stack (cli s) = stack s" "reg (cli s) = reg s"
  by (simp_all add: cli_def)

lemma body_trace_quiet:
  "\<forall>e\<in>set es. quiet a e \<Longrightarrow> \<not> bit (TIMSK0 s) a \<Longrightarrow>
   \<exists>ts. body_trace a b es s = Some ts \<and> (\<forall>t\<in>set ts. \<not> bit (TIMSK0 t) a)"
proof (induction es arbitrary: s)
  case Nil
  then show ?case by simp
next
  case (Cons e es)
  from Cons.prems have q: "quiet a e" and qs: "\<forall>e\<in>set es. quiet a e"
    by simp_all
  show ?case
  proof (cases e)
    case (Own f)
    with q Cons.prems(2) have "\<not> bit (TIMSK0 (f s)) a" by simp
    with Cons.IH [OF qs, of "f s"] Own show ?thesis by auto
  next
    case (Stepper_IRQ g)
    with q have abi: "abi_conforming g" and g: "\<forall>t. bit (TIMSK0 (g t)) a = bit (TIMSK0 t) a"
      by simp_all
    from Cons.prems(2) have c: "\<not> bit (TIMSK0 (cli s)) a"
      by (simp add: cli_frame)
    from trace_STEPPER_TIMER_ISR_quiet [OF abi g c, of b] obtain us where
      us: "trace g (STEPPER_TIMER_ISR a b) (cli s) = Some us"
      and us_quiet: "\<forall>t\<in>set us. \<not> bit (TIMSK0 t) a"
      by blast
    have "last (cli s # us) \<in> set (cli s # us)"
      by (rule last_in_set) simp
    with c us_quiet have "\<not> bit (TIMSK0 (last (cli s # us))) a"
      by auto
    from Cons.IH [OF qs this] obtain ts where
      "body_trace a b es (last (cli s # us)) = Some ts" "\<forall>t\<in>set ts. \<not> bit (TIMSK0 t) a"
      by blast
    with us us_quiet c Stepper_IRQ show ?thesis by auto
  qed
qed

lemma body_trace_abi:
  "\<forall>e\<in>set es. event_abi e \<Longrightarrow>
   \<exists>ts. body_trace a b es s = Some ts \<and> stack (last (s # ts)) = stack s
        \<and> reg (last (s # ts)) 16 = reg s 16"
proof (induction es arbitrary: s)
  case Nil
  then show ?case by simp
next
  case (Cons e es)
  from Cons.prems have e: "event_abi e" and es: "\<forall>e\<in>set es. event_abi e"
    by simp_all
  show ?case
  proof (cases e)
    case (Own f)
    from Cons.IH [OF es, of "f s"] obtain ts where
      ts: "body_trace a b es (f s) = Some ts" "stack (last (f s # ts)) = stack (f s)"
        "reg (last (f s # ts)) 16 = reg (f s) 16"
      by blast
    moreover from e Own have "stack (f s) = stack s" "reg (f s) 16 = reg s 16"
      by (simp_all add: abi_conforming_def)
    ultimately show ?thesis using Own by simp
  next
    case (Stepper_IRQ g)
    with e have abi: "abi_conforming g" by simp
    from run_STEPPER_TIMER_ISR [OF abi, of a b "cli s"] obtain u where
      u: "run g (STEPPER_TIMER_ISR a b) (cli s) = Some u" "stack u = stack s" "reg u 16 = reg s 16"
      by (auto simp add: cli_frame)
    then obtain us where us: "trace g (STEPPER_TIMER_ISR a b) (cli s) = Some us"
      and last: "last (cli s # us) = u"
      by (auto simp add: run_trace split: option.splits)
    from Cons.IH [OF es, of u] obtain ts where
      ts: "body_trace a b es u = Some ts" "stack (last (u # ts)) = stack u"
        "reg (last (u # ts)) 16 = reg u 16"
      by blast
    have "last (s # cli s # us @ ts) = last (u # ts)"
      using last by (cases ts) (simp_all split: if_splits)
    with us last ts u Stepper_IRQ show ?thesis by simp
  qed
qed

lemma body_result_abi:
  "\<forall>e\<in>set es. event_abi e \<Longrightarrow> abi_conforming (body_result a b es)"
  unfolding abi_conforming_def body_result_def
proof
  fix t
  assume "\<forall>e\<in>set es. event_abi e"
  from body_trace_abi [OF this, of a b t]
  show "stack (case body_trace a b es t of None \<Rightarrow> t | Some ts \<Rightarrow> last (t # ts)) = stack t \<and>
         reg (case body_trace a b es t of None \<Rightarrow> t | Some ts \<Rightarrow> last (t # ts)) 16 = reg t 16"
    by auto
qed


lemma set_unset_bit: "set_bit a (unset_bit a (w :: 8 word)) = set_bit a w"
  by (rule bit_eqI) (auto simp add: bit_simps)

text \<open>
  C8. The temperature handler \<^verbatim>\<open>TEMP_TIMER_ISR\<close>, for every state \<open>s\<close> it is entered
  in: at the call of its bottom handler the bit \<^verbatim>\<open>OCIE0B\<close> of TIMSK0 is cleared and
  the I flag is set; the bit is cleared in every state passed while the body runs, the
  states inside preempting motion handlers included, so the temperature interrupt cannot
  be taken again; and after the body, with the I flag cleared, the bit is set again
  before the return. The body is any sequence of steps that do not write the bit
  themselves, interleaved with motion interrupts, that as a whole conforms to the
  calling convention.
\<close>

theorem temp_isr_keeps_itself_masked:
  assumes q: "\<forall>e\<in>set es. quiet a e"
    and abi: "abi_conforming (body_result a b es)"
    and a: "a < 8"
  shows "\<exists>s1 ts s2 s3 s4.
      run (body_result a b es) (temp_entry a @ c_prologue) s = Some s1
    \<and> \<not> bit (TIMSK0 s1) a \<and> bit (SREG s1) SREG_I
    \<and> body_trace a b es s1 = Some ts \<and> (\<forall>t\<in>set ts. \<not> bit (TIMSK0 t) a)
    \<and> run (body_result a b es) (c_epilogue @ [CLI]) (body_result a b es s1) = Some s2
    \<and> \<not> bit (SREG s2) SREG_I \<and> \<not> bit (TIMSK0 s2) a
    \<and> run (body_result a b es) (temp_restore a) s2 = Some s3
    \<and> \<not> bit (SREG s3) SREG_I \<and> bit (TIMSK0 s3) a
    \<and> run (body_result a b es) isr_return s3 = Some s4
    \<and> bit (TIMSK0 s4) a \<and> TIMSK0 s4 = set_bit a (TIMSK0 s)
    \<and> run (body_result a b es) (TEMP_TIMER_ISR a) s = Some s4"
proof -
  let ?B = "body_result a b es"
  obtain s1 where s1: "run ?B (temp_entry a @ c_prologue) s = Some s1"
    and s1_TIMSK0: "TIMSK0 s1 = unset_bit a (TIMSK0 s)"
    and s1_r16: "reg s1 16 = unset_bit a (TIMSK0 s)"
    and s1_stack: "stack s1 = [reg s 31, reg s 30, reg s 27, reg s 26, reg s 25, reg s 24,
          reg s 23, reg s 22, reg s 21, reg s 20, reg s 19, reg s 18, reg s 1, reg s 0,
          SREG s, reg s 16] @ stack s"
    and s1_I: "bit (SREG s1) SREG_I"
    by (simp add: run_temp_to_call bit_logic_flags_I bit_SREG_I_set unset_bit_msk)
  have s1_off: "\<not> bit (TIMSK0 s1) a"
    by (simp add: s1_TIMSK0 bit_simps)
  from body_trace_quiet [OF q s1_off, of b] obtain ts where
    ts: "body_trace a b es s1 = Some ts" and ts_off: "\<forall>t\<in>set ts. \<not> bit (TIMSK0 t) a"
    by blast
  have B: "?B s1 = last (s1 # ts)"
    by (simp add: body_result_def ts)
  have "last (s1 # ts) \<in> set (s1 # ts)"
    by (rule last_in_set) simp
  with s1_off ts_off have B_off: "\<not> bit (TIMSK0 (?B s1)) a"
    unfolding B by auto
  have c_stack: "stack (?B s1) = reg s 31 # reg s 30 # reg s 27 # reg s 26 # reg s 25
        # reg s 24 # reg s 23 # reg s 22 # reg s 21 # reg s 20 # reg s 19 # reg s 18
        # reg s 1 # reg s 0 # SREG s # reg s 16 # stack s"
    using abi_stack [OF abi, of s1] s1_stack by simp
  have c_r16: "reg (?B s1) 16 = unset_bit a (TIMSK0 s)"
    using abi_r16 [OF abi, of s1] s1_r16 by simp
  obtain s2 where s2: "run ?B (c_epilogue @ [CLI]) (?B s1) = Some s2"
    and s2_stack: "stack s2 = SREG s # reg s 16 # stack s"
    and s2_r16: "reg s2 16 = unset_bit a (TIMSK0 s)"
    and s2_I: "\<not> bit (SREG s2) SREG_I"
    and s2_off: "\<not> bit (TIMSK0 s2) a"
    using B_off c_r16 by (simp add: run_c_epilogue_cli [OF c_stack] bit_SREG_I_unset)
  obtain s3 where s3: "run ?B (temp_restore a) s2 = Some s3"
    and s3_stack: "stack s3 = SREG s # reg s 16 # stack s"
    and s3_I: "\<not> bit (SREG s3) SREG_I"
    and s3_TIMSK0: "TIMSK0 s3 = set_bit a (TIMSK0 s)"
    using s2_I s2_stack s2_r16
    by (simp add: run_temp_restore bit_logic_flags_I set_bit_msk set_unset_bit)
  obtain s4 where s4: "run ?B isr_return s3 = Some s4"
    and s4_TIMSK0: "TIMSK0 s4 = set_bit a (TIMSK0 s)"
    using s3_TIMSK0 by (simp add: run_isr_return [OF s3_stack])
  have "run ?B (TEMP_TIMER_ISR a) s
          = run ?B (CALL_bottom # (c_epilogue @ [CLI]) @ temp_restore a @ isr_return) s1"
    unfolding TEMP_TIMER_ISR_parts using s1 by (rule run_append_Some)
  also have "\<dots> = run ?B ((c_epilogue @ [CLI]) @ temp_restore a @ isr_return) (?B s1)"
    by simp
  also have "\<dots> = run ?B (temp_restore a @ isr_return) s2"
    using s2 by (rule run_append_Some)
  also have "\<dots> = run ?B isr_return s3"
    using s3 by (rule run_append_Some)
  finally have whole: "run ?B (TEMP_TIMER_ISR a) s = Some s4"
    using s4 by simp
  have on: "bit (set_bit a (TIMSK0 s)) a"
    using a by (simp add: bit_simps)
  from s1 s1_off s1_I ts ts_off s2 s2_I s2_off s3 s3_I s3_TIMSK0 s4 s4_TIMSK0 whole on
  show ?thesis by simp
qed

theorem temp_isr_keeps_itself_masked_witness:
  "list_all (quiet 2) preempted_body
   \<and> abi_conforming (body_result 2 1 preempted_body)
   \<and> (\<exists>t. run (body_result 2 1 preempted_body) (TEMP_TIMER_ISR 2) isr_entry_state = Some t
          \<and> bit (TIMSK0 t) 2)"
proof -
  have abi_step: "abi_conforming sampling_step"
    by (simp add: abi_conforming_def sampling_step_def)
  have abi_motion: "abi_conforming motion_bottom"
    by (simp add: abi_conforming_def motion_bottom_def)
  have q: "\<forall>e\<in>set preempted_body. quiet 2 e"
    using abi_motion
    by (simp add: preempted_body_def sampling_step_def motion_bottom_def bit_simps)
  have abi: "abi_conforming (body_result 2 1 preempted_body)"
    by (rule body_result_abi) (simp add: preempted_body_def abi_step abi_motion)
  from temp_isr_keeps_itself_masked [OF q abi, of isr_entry_state]
  show ?thesis using q abi by (auto simp add: list_all_iff)
qed

end
